theory Spec2Isabelle
  imports Complex_Main
begin

section \<open>JavaScript numbers\<close>

text \<open>
  The component computes with the TypeScript type \<open>number\<close>. The model keeps the three
  special values of that type, because the code can meet them (a division by a zero width,
  a media duration that is \<open>NaN\<close> or \<open>Infinity\<close>), and computes on finite values exactly,
  as real numbers: rounding, overflow and the sign of zero are not modelled.
\<close>

datatype number = Fin real | PInf | NInf | NaN

fun num_sub :: "number \<Rightarrow> number \<Rightarrow> number" where
  "num_sub NaN y = NaN"
| "num_sub (Fin a) NaN = NaN"
| "num_sub PInf NaN = NaN"
| "num_sub NInf NaN = NaN"
| "num_sub (Fin a) (Fin b) = Fin (a - b)"
| "num_sub (Fin a) PInf = NInf"
| "num_sub (Fin a) NInf = PInf"
| "num_sub PInf PInf = NaN"
| "num_sub PInf (Fin b) = PInf"
| "num_sub PInf NInf = PInf"
| "num_sub NInf NInf = NaN"
| "num_sub NInf (Fin b) = NInf"
| "num_sub NInf PInf = NInf"

fun num_mul :: "number \<Rightarrow> number \<Rightarrow> number" where
  "num_mul NaN y = NaN"
| "num_mul (Fin a) NaN = NaN"
| "num_mul PInf NaN = NaN"
| "num_mul NInf NaN = NaN"
| "num_mul (Fin a) (Fin b) = Fin (a * b)"
| "num_mul (Fin a) PInf = (if a = 0 then NaN else if 0 < a then PInf else NInf)"
| "num_mul (Fin a) NInf = (if a = 0 then NaN else if 0 < a then NInf else PInf)"
| "num_mul PInf (Fin b) = (if b = 0 then NaN else if 0 < b then PInf else NInf)"
| "num_mul NInf (Fin b) = (if b = 0 then NaN else if 0 < b then NInf else PInf)"
| "num_mul PInf PInf = PInf"
| "num_mul PInf NInf = NInf"
| "num_mul NInf PInf = NInf"
| "num_mul NInf NInf = PInf"

text \<open>
  Division by zero does not fail in JavaScript: a non-zero finite numerator gives an
  infinity of its sign, and \<open>0 / 0\<close> is \<open>NaN\<close>.
\<close>

fun num_div :: "number \<Rightarrow> number \<Rightarrow> number" where
  "num_div NaN y = NaN"
| "num_div (Fin a) NaN = NaN"
| "num_div PInf NaN = NaN"
| "num_div NInf NaN = NaN"
| "num_div (Fin a) (Fin b) =
     (if b = 0 then (if a = 0 then NaN else if 0 < a then PInf else NInf)
      else Fin (a / b))"
| "num_div (Fin a) PInf = Fin 0"
| "num_div (Fin a) NInf = Fin 0"
| "num_div PInf (Fin b) = (if 0 \<le> b then PInf else NInf)"
| "num_div NInf (Fin b) = (if 0 \<le> b then NInf else PInf)"
| "num_div PInf PInf = NaN"
| "num_div PInf NInf = NaN"
| "num_div NInf PInf = NaN"
| "num_div NInf NInf = NaN"

text \<open>The comparison \<open><\<close>: every comparison with \<open>NaN\<close> is false.\<close>

fun num_lt :: "number \<Rightarrow> number \<Rightarrow> bool" where
  "num_lt (Fin a) (Fin b) = (a < b)"
| "num_lt (Fin a) PInf = True"
| "num_lt NInf (Fin b) = True"
| "num_lt NInf PInf = True"
| "num_lt x y = False"

definition num_gt :: "number \<Rightarrow> number \<Rightarrow> bool" where
  "num_gt x y = num_lt y x"

definition num_le :: "number \<Rightarrow> number \<Rightarrow> bool" where
  "num_le x y = (x \<noteq> NaN \<and> y \<noteq> NaN \<and> \<not> num_lt y x)"

text \<open>\<open>Math.min\<close> and \<open>Math.max\<close> return \<open>NaN\<close> as soon as one argument is \<open>NaN\<close>.\<close>

definition Math_min :: "number \<Rightarrow> number \<Rightarrow> number" where
  "Math_min x y = (if x = NaN \<or> y = NaN then NaN else if num_lt y x then y else x)"

definition Math_max :: "number \<Rightarrow> number \<Rightarrow> number" where
  "Math_max x y = (if x = NaN \<or> y = NaN then NaN else if num_lt x y then y else x)"

fun Math_ceil :: "number \<Rightarrow> number" where
  "Math_ceil (Fin a) = Fin (of_int \<lceil>a\<rceil>)"
| "Math_ceil x = x"

text \<open>
  \<open>Array.from({length: n})\<close> converts \<open>n\<close> with the language's \<open>ToLength\<close>: \<open>NaN\<close> and
  negative values give 0, a fraction is truncated, and the result is capped at \<open>2^53 - 1\<close>.
\<close>

fun toLength :: "number \<Rightarrow> nat" where
  "toLength (Fin a) = nat (min \<lfloor>a\<rfloor> (2 ^ 53 - 1))"
| "toLength PInf = 2 ^ 53 - 1"
| "toLength NInf = 0"
| "toLength NaN = 0"

section \<open>The component's data\<close>

text \<open>
  The \<open>useState\<close> cells of \<open>VideoEditorTimeline\<close>. One value of this record is also what
  the functions created by one render close over: \<open>cropStartTime\<close>, \<open>cropEndTime\<close>,
  \<open>cropMode\<close> and \<open>videoDuration\<close> are constants of that render. (\<open>audioData\<close> is written
  by the audio sampling loop and read nowhere; it is left out.)
\<close>

record state =
  cropMode :: bool
  cropStartTime :: number
  cropEndTime :: number
  videoDuration :: number
  dynamicThumbnailCount :: number
  dynamicWaveformCount :: number

datatype marker = Start | End

record HTMLVideoElement =
  currentTime :: number
  duration :: number

text \<open>
  What \<open>getBoundingClientRect\<close> and a mouse event report are finite coordinates, so they
  are real numbers here; the width can be 0.
\<close>

record DOMRect =
  rect_left :: real
  rect_width :: real

record MouseEvent =
  clientX :: real

text \<open>The value handed to \<open>Streamlit.setComponentValue\<close>.\<close>

record component_value =
  cv_start :: number
  cv_end :: number
  shouldRefreshTaskList :: bool

record args =
  video_url :: string
  height :: number
  waveform_data :: "number list option"
  frame_data :: "string list option"

text \<open>
  Everything the handlers read or write: the state cells, the two drag refs, the video
  element and the timeline element behind their refs (the timeline element is represented
  by its current bounding rectangle), the listeners registered on \<open>document\<close>, and the
  values sent to the host so far. A registered listener is a function made by some render;
  it is identified by the state that render closed over. \<open>uncaught\<close> collects the
  exceptions that left a handler uncaught.
\<close>

datatype js_error = TypeError

record world =
  st :: state
  isDraggingRef :: bool
  activeMarkerRef :: "marker option"
  videoRef :: "HTMLVideoElement option"
  timelineRef :: "DOMRect option"
  mousemove :: "state list"
  mouseup :: "state list"
  componentValues :: "component_value list"
  uncaught :: "js_error list"

definition initial_state :: state where
  "initial_state =
     \<lparr>cropMode = False, cropStartTime = Fin 0, cropEndTime = Fin 0, videoDuration = Fin 0,
      dynamicThumbnailCount = Fin 100, dynamicWaveformCount = Fin 100\<rparr>"

text \<open>
  \<open>addEventListener\<close> ignores a function that is already registered. Two renders with
  the same state make functions that behave alike, so it makes no difference that the
  model takes them for one.
\<close>

definition addEventListener :: "state \<Rightarrow> state list \<Rightarrow> state list" where
  "addEventListener r ls = (if r \<in> set ls then ls else ls @ [r])"

definition removeEventListener :: "state \<Rightarrow> state list \<Rightarrow> state list" where
  "removeEventListener r ls = removeAll r ls"

section \<open>The handlers\<close>

text \<open>
  Each handler takes the render \<open>r\<close> whose constants it closes over, and the world it
  reads the refs from and writes to.
\<close>

definition handleCropApply :: "state \<Rightarrow> world \<Rightarrow> world" where
  "handleCropApply r w =
     w\<lparr>componentValues := componentValues w @
          [\<lparr>cv_start = cropStartTime r, cv_end = cropEndTime r,
            shouldRefreshTaskList = True\<rparr>],
       st := (st w)\<lparr>cropMode := False\<rparr>\<rparr>"

definition handleToggleCrop :: "state \<Rightarrow> world \<Rightarrow> world" where
  "handleToggleCrop r w =
     (let w1 =
        (if \<not> cropMode r then
           (let startTime = Fin 1;
                endTime = Math_max (num_sub (videoDuration r) (Fin 1))
                                   (num_mul (videoDuration r) (Fin 0.75))
            in w\<lparr>st := (st w)\<lparr>cropStartTime := startTime, cropEndTime := endTime\<rparr>\<rparr>)
         else w)
      in w1\<lparr>st := (st w1)\<lparr>cropMode := \<not> cropMode r\<rparr>\<rparr>)"

text \<open>The inline \<open>onClick\<close> of the Cancelar button.\<close>

definition handleCancel :: "world \<Rightarrow> world" where
  "handleCancel w = w\<lparr>st := (st w)\<lparr>cropMode := False\<rparr>\<rparr>"

definition handleMarkerMouseDown :: "state \<Rightarrow> marker \<Rightarrow> world \<Rightarrow> world" where
  "handleMarkerMouseDown r markerType w =
     w\<lparr>isDraggingRef := True, activeMarkerRef := Some markerType,
       mousemove := addEventListener r (mousemove w),
       mouseup := addEventListener r (mouseup w)\<rparr>"

text \<open>Lines 126 to 132 of \<open>handleMarkerDrag\<close>: from the pointer to the candidate time.\<close>

definition newTime :: "DOMRect \<Rightarrow> MouseEvent \<Rightarrow> number \<Rightarrow> number" where
  "newTime timeline e videoDuration' =
     (let timelineWidth = Fin (rect_width timeline);
          timelineLeft = Fin (rect_left timeline);
          position = num_div (num_sub (Fin (clientX e)) timelineLeft) timelineWidth;
          position = Math_max (Fin 0) (Math_min (Fin 1) position)
      in num_mul position videoDuration')"

text \<open>
  \<open>if (videoRef.current) videoRef.current.currentTime = t\<close>. The attribute takes a
  finite number: assigning \<open>NaN\<close> or an infinity throws a \<open>TypeError\<close> and leaves the
  position as it was. The assignment is the last statement of its handler, so the exception
  ends nothing else; it is recorded as uncaught. For a finite value the assignment is
  recorded as made (how the media element then seeks is not modelled).
\<close>

definition seek :: "number \<Rightarrow> world \<Rightarrow> world" where
  "seek t w =
     (case videoRef w of
        None \<Rightarrow> w
      | Some v \<Rightarrow>
          (case t of
             Fin x \<Rightarrow> w\<lparr>videoRef := Some (v\<lparr>currentTime := t\<rparr>)\<rparr>
           | _ \<Rightarrow> w\<lparr>uncaught := uncaught w @ [TypeError]\<rparr>))"

definition handleMarkerDrag :: "state \<Rightarrow> MouseEvent \<Rightarrow> world \<Rightarrow> world" where
  "handleMarkerDrag r e w =
     (if \<not> isDraggingRef w then w
      else case timelineRef w of
        None \<Rightarrow> w
      | Some timeline \<Rightarrow>
          (case activeMarkerRef w of
             None \<Rightarrow> w
           | Some Start \<Rightarrow>
               (let t = newTime timeline e (videoDuration r)
                in if num_lt t (cropEndTime r)
                   then seek t (w\<lparr>st := (st w)\<lparr>cropStartTime := t\<rparr>\<rparr>)
                   else w)
           | Some End \<Rightarrow>
               (let t = newTime timeline e (videoDuration r)
                in if num_gt t (cropStartTime r)
                   then seek t (w\<lparr>st := (st w)\<lparr>cropEndTime := t\<rparr>\<rparr>)
                   else w)))"

definition handleMarkerMouseUp :: "state \<Rightarrow> world \<Rightarrow> world" where
  "handleMarkerMouseUp r w =
     w\<lparr>isDraggingRef := False, activeMarkerRef := None,
       mousemove := removeEventListener r (mousemove w),
       mouseup := removeEventListener r (mouseup w)\<rparr>"

definition handleMarkerDoubleClick :: "number \<Rightarrow> world \<Rightarrow> world" where
  "handleMarkerDoubleClick time w = seek time w"

text \<open>
  The \<open>loadedmetadata\<close> listener of the mount effect (the audio analysis it starts only
  feeds \<open>audioData\<close>).
\<close>

definition loadedmetadata :: "HTMLVideoElement \<Rightarrow> world \<Rightarrow> world" where
  "loadedmetadata video w =
     (let thumbnailCount =
            Math_min (Fin 300) (Math_max (Fin 50) (Math_ceil (num_div (duration video) (Fin 3))));
          waveformCount =
            Math_min (Fin 1000) (Math_max (Fin 100) (Math_ceil (num_mul (duration video) (Fin 2))))
      in w\<lparr>st := (st w)\<lparr>videoDuration := duration video,
                         dynamicThumbnailCount := thumbnailCount,
                         dynamicWaveformCount := waveformCount\<rparr>\<rparr>)"

section \<open>What a render shows\<close>

text \<open>
  Of the rendered tree, the parts the properties below speak about: the thumbnail lane (one
  image reference per thumbnail), the waveform lane (one bar height, in percent, per bar),
  the crop markers and the buttons. Widths, colours and labels are left out.
\<close>

definition blank_thumbnail :: string where
  "blank_thumbnail =
     ''data:image/gif;base64,R0lGODlhAQABAIAAAP///wAAACH5BAEAAAAALAAAAAABAAEAAAICRAEAOw==''"

definition frame_thumbnails :: "args \<Rightarrow> state \<Rightarrow> string list" where
  "frame_thumbnails a s =
     (case frame_data a of
        Some fs \<Rightarrow>
          if 0 < length fs then map (\<lambda>frame. frame) fs
          else replicate (toLength (dynamicThumbnailCount s)) blank_thumbnail
      | None \<Rightarrow> replicate (toLength (dynamicThumbnailCount s)) blank_thumbnail)"

definition default_bars :: "state \<Rightarrow> number list" where
  "default_bars s =
     map (\<lambda>index. Fin (20 + 15 * sin (real index * pi / 10)))
       [0 ..< toLength (dynamicWaveformCount s)]"

definition audio_waveform :: "args \<Rightarrow> state \<Rightarrow> number list" where
  "audio_waveform a s =
     (case waveform_data a of
        Some vs \<Rightarrow>
          if 0 < length vs
          then map (\<lambda>value. num_mul (Math_max value (Fin 0.2)) (Fin 100)) vs
          else default_bars s
      | None \<Rightarrow> default_bars s)"

record crop_marker =
  marker_type :: marker
  marker_left :: number
  marker_time :: number

definition crop_markers :: "state \<Rightarrow> crop_marker list" where
  "crop_markers s =
     (if cropMode s then
        [\<lparr>marker_type = Start,
          marker_left = num_mul (num_div (cropStartTime s) (videoDuration s)) (Fin 100),
          marker_time = cropStartTime s\<rparr>,
         \<lparr>marker_type = End,
          marker_left = num_mul (num_div (cropEndTime s) (videoDuration s)) (Fin 100),
          marker_time = cropEndTime s\<rparr>]
      else [])"

datatype button = ModoDeCorte | AplicarCorte | Cancelar

definition buttons :: "state \<Rightarrow> button list" where
  "buttons s = (if \<not> cropMode s then [ModoDeCorte] else [AplicarCorte, Cancelar])"

section \<open>Events\<close>

text \<open>
  The events the component reacts to. A click, a mouse-down or a double click reaches the
  handler that the current render attached, so that handler closes over the current state.
  A mouse move or a mouse up on \<open>document\<close> runs the listeners registered there, each
  with the state of the render that made it. \<open>Layout\<close> stands for the page changing the
  timeline's rectangle (or unmounting it).
\<close>

datatype event =
    Click button
  | MarkerMouseDown marker
  | MarkerDoubleClick marker
  | DocMouseMove MouseEvent
  | DocMouseUp
  | VideoLoadedMetadata number
  | Layout "DOMRect option"

fun enabled :: "event \<Rightarrow> world \<Rightarrow> bool" where
  "enabled (Click b) w = (b \<in> set (buttons (st w)))"
| "enabled (MarkerMouseDown m) w = (m \<in> set (map marker_type (crop_markers (st w))))"
| "enabled (MarkerDoubleClick m) w = (m \<in> set (map marker_type (crop_markers (st w))))"
| "enabled ev w = True"

definition markerTime :: "marker \<Rightarrow> state \<Rightarrow> number" where
  "markerTime m s = (case m of Start \<Rightarrow> cropStartTime s | End \<Rightarrow> cropEndTime s)"

fun step :: "event \<Rightarrow> world \<Rightarrow> world" where
  "step (Click ModoDeCorte) w = handleToggleCrop (st w) w"
| "step (Click AplicarCorte) w = handleCropApply (st w) w"
| "step (Click Cancelar) w = handleCancel w"
| "step (MarkerMouseDown m) w = handleMarkerMouseDown (st w) m w"
| "step (MarkerDoubleClick m) w = handleMarkerDoubleClick (markerTime m (st w)) w"
| "step (DocMouseMove e) w = foldl (\<lambda>w' r. handleMarkerDrag r e w') w (mousemove w)"
| "step DocMouseUp w = foldl (\<lambda>w' r. handleMarkerMouseUp r w') w (mouseup w)"
| "step (VideoLoadedMetadata d) w =
     (case videoRef w of
        None \<Rightarrow> w
      | Some v \<Rightarrow>
          (let video = v\<lparr>duration := d\<rparr>
           in loadedmetadata video (w\<lparr>videoRef := Some video\<rparr>)))"
| "step (Layout rect) w = w\<lparr>timelineRef := rect\<rparr>"

text \<open>The worlds after each event of a run, in order.\<close>

fun trace :: "event list \<Rightarrow> world \<Rightarrow> world list" where
  "trace [] w = []"
| "trace (ev # evs) w = step ev w # trace evs (step ev w)"

fun run :: "event list \<Rightarrow> world \<Rightarrow> world" where
  "run [] w = w"
| "run (ev # evs) w = run evs (step ev w)"

text \<open>A run is feasible when each of its events can occur in the world it meets.\<close>

fun feasible :: "event list \<Rightarrow> world \<Rightarrow> bool" where
  "feasible [] w = True"
| "feasible (ev # evs) w = (enabled ev w \<and> feasible evs (step ev w))"

text \<open>
  A drag session: the pointer goes down on a marker, moves, and goes up. A session is
  given by its marker and its pointer positions.
\<close>

definition session_events :: "marker \<times> MouseEvent list \<Rightarrow> event list" where
  "session_events ses =
     MarkerMouseDown (fst ses) # map DocMouseMove (snd ses) @ [DocMouseUp]"

definition ordered :: "world \<Rightarrow> bool" where
  "ordered w = num_lt (cropStartTime (st w)) (cropEndTime (st w))"

text \<open>
  What holds of the world between the mouse-down of a session on marker \<open>m\<close> and its
  mouse-up: the refs say so, the one listener pair on \<open>document\<close> is the one made by the
  render \<open>r\<close> that was current at the mouse-down, and what that render closed over for
  the duration and for the marker that is not dragged is still the current value.
\<close>

definition in_session :: "marker \<Rightarrow> state \<Rightarrow> world \<Rightarrow> bool" where
  "in_session m r w =
     (isDraggingRef w \<and> activeMarkerRef w = Some m \<and> mousemove w = [r] \<and> mouseup w = [r]
      \<and> videoDuration r = videoDuration (st w)
      \<and> (case m of Start \<Rightarrow> cropEndTime r = cropEndTime (st w)
                    | End \<Rightarrow> cropStartTime r = cropStartTime (st w)))"

text \<open>
  The component as mounted: the initial state cells, no drag, no listener, nothing sent;
  the video element has no duration yet.
\<close>

definition mount :: "DOMRect \<Rightarrow> world" where
  "mount timeline =
     \<lparr>st = initial_state, isDraggingRef = False, activeMarkerRef = None,
      videoRef = Some \<lparr>currentTime = Fin 0, duration = NaN\<rparr>,
      timelineRef = Some timeline, mousemove = [], mouseup = [], componentValues = [], uncaught = []\<rparr>"

text \<open>
  Worlds to evaluate on: mounted over a timeline 600 wide, then the metadata of a video of
  duration \<open>d\<close> loaded, then crop mode entered.
\<close>

definition loaded :: "number \<Rightarrow> world" where
  "loaded d = step (VideoLoadedMetadata d) (mount \<lparr>rect_left = 0, rect_width = 600\<rparr>)"

definition cropping :: "number \<Rightarrow> world" where
  "cropping d = step (Click ModoDeCorte) (loaded d)"

text \<open>
  The mapping from the pointer to a time in the specification's words:
  \<open>position = clamp((pointerX - leftEdge) / width, 0, 1)\<close>, \<open>time = position * duration\<close>.
\<close>

definition spec_clamp :: "real \<Rightarrow> real \<Rightarrow> real \<Rightarrow> real" where
  "spec_clamp x lo hi = (if x < lo then lo else if hi < x then hi else x)"

definition spec_time :: "real \<Rightarrow> real \<Rightarrow> real \<Rightarrow> real \<Rightarrow> real" where
  "spec_time pointerX leftEdge width' duration' =
     spec_clamp ((pointerX - leftEdge) / width') 0 1 * duration'"

text \<open>The lengths of the placeholder lanes in the specification's words.\<close>

definition spec_clamp_int :: "int \<Rightarrow> int \<Rightarrow> int \<Rightarrow> int" where
  "spec_clamp_int x lo hi = (if x < lo then lo else if hi < x then hi else x)"

definition spec_waveform_length :: "real \<Rightarrow> nat" where
  "spec_waveform_length d = nat (spec_clamp_int \<lceil>d * 2\<rceil> 100 1000)"

definition spec_thumbnail_length :: "real \<Rightarrow> nat" where
  "spec_thumbnail_length d = nat (spec_clamp_int \<lceil>d / 3\<rceil> 50 300)"

section \<open>Basic facts\<close>

lemma num_lt_NaN [simp]: "\<not> num_lt NaN y" "\<not> num_lt x NaN"
  by (cases x; simp)+

lemma seek_fields [simp]:
  "st (seek t w) = st w" "isDraggingRef (seek t w) = isDraggingRef w"
  "activeMarkerRef (seek t w) = activeMarkerRef w" "mousemove (seek t w) = mousemove w"
  "mouseup (seek t w) = mouseup w" "timelineRef (seek t w) = timelineRef w"
  "componentValues (seek t w) = componentValues w"
  by (simp_all add: seek_def split: option.splits number.splits)

lemma trace_append: "trace (xs @ ys) w = trace xs w @ trace ys (run xs w)"
  by (induction xs arbitrary: w) simp_all

lemma run_append: "run (xs @ ys) w = run ys (run xs w)"
  by (induction xs arbitrary: w) simp_all

lemma loaded_120:
  "loaded (Fin 120) =
     \<lparr>st = \<lparr>cropMode = False, cropStartTime = Fin 0, cropEndTime = Fin 0,
            videoDuration = Fin 120, dynamicThumbnailCount = Fin 50,
            dynamicWaveformCount = Fin 240\<rparr>,
      isDraggingRef = False, activeMarkerRef = None,
      videoRef = Some \<lparr>currentTime = Fin 0, duration = Fin 120\<rparr>,
      timelineRef = Some \<lparr>rect_left = 0, rect_width = 600\<rparr>,
      mousemove = [], mouseup = [], componentValues = [], uncaught = []\<rparr>"
  by (simp add: loaded_def mount_def initial_state_def loadedmetadata_def
      Math_min_def Math_max_def Let_def)

lemma cropping_120:
  "cropping (Fin 120) =
     \<lparr>st = \<lparr>cropMode = True, cropStartTime = Fin 1, cropEndTime = Fin 119,
            videoDuration = Fin 120, dynamicThumbnailCount = Fin 50,
            dynamicWaveformCount = Fin 240\<rparr>,
      isDraggingRef = False, activeMarkerRef = None,
      videoRef = Some \<lparr>currentTime = Fin 0, duration = Fin 120\<rparr>,
      timelineRef = Some \<lparr>rect_left = 0, rect_width = 600\<rparr>,
      mousemove = [], mouseup = [], componentValues = [], uncaught = []\<rparr>"
  by (simp add: cropping_def loaded_120 handleToggleCrop_def Math_max_def Let_def)

lemmas handler_defs =
  handleMarkerMouseDown_def addEventListener_def handleMarkerDrag_def newTime_def seek_def
  Math_min_def Math_max_def num_gt_def Let_def session_events_def handleMarkerMouseUp_def
  removeEventListener_def handleToggleCrop_def handleCropApply_def handleCancel_def

section \<open>Drag sessions\<close>

lemma mouse_down_opens:
  assumes "mousemove w = []" "mouseup w = []"
  shows "in_session m (st w) (step (MarkerMouseDown m) w)"
    and "st (step (MarkerMouseDown m) w) = st w"
    and "timelineRef (step (MarkerMouseDown m) w) = timelineRef w"
  using assms
  by (auto simp: in_session_def handleMarkerMouseDown_def addEventListener_def
      split: marker.splits)

lemma mouse_move_in_session:
  assumes "in_session m r w"
  shows "step (DocMouseMove e) w = handleMarkerDrag r e w"
    and "in_session m r (step (DocMouseMove e) w)"
    and "timelineRef (step (DocMouseMove e) w) = timelineRef w"
    and "ordered w \<Longrightarrow> ordered (step (DocMouseMove e) w)"
  using assms
  by (auto simp: in_session_def handleMarkerDrag_def ordered_def num_gt_def Let_def
      split: marker.splits option.splits)

lemma mouse_up_closes:
  assumes "in_session m r w"
  shows "mousemove (step DocMouseUp w) = []" and "mouseup (step DocMouseUp w) = []"
    and "st (step DocMouseUp w) = st w"
  using assms
  by (auto simp: in_session_def handleMarkerMouseUp_def removeEventListener_def)

lemma moves_in_session:
  assumes "in_session m r w"
  shows "in_session m r (run (map DocMouseMove es) w)"
    and "timelineRef (run (map DocMouseMove es) w) = timelineRef w"
    and "ordered w \<Longrightarrow> ordered (run (map DocMouseMove es) w)"
    and "ordered w \<Longrightarrow> list_all ordered (trace (map DocMouseMove es) w)"
  using assms
proof (induction es arbitrary: w)
  case Nil
  {
    case 1 then show ?case by simp
  next
    case 2 then show ?case by simp
  next
    case 3 then show ?case by simp
  next
    case 4 then show ?case by simp
  }
next
  case (Cons e es)
  {
    case 1 then show ?case using Cons.IH(1) mouse_move_in_session(2) by simp
  next
    case 2 then show ?case using Cons.IH(2) mouse_move_in_session(2,3) by simp
  next
    case 3 then show ?case using Cons.IH(3) mouse_move_in_session(2,4) by simp
  next
    case 4 then show ?case using Cons.IH(4) mouse_move_in_session(2,4) by simp
  }
qed

lemma session_keeps_order:
  assumes "mousemove w = []" "mouseup w = []" "ordered w"
  shows "list_all ordered (trace (session_events ses) w)"
    and "mousemove (run (session_events ses) w) = []"
    and "mouseup (run (session_events ses) w) = []"
    and "ordered (run (session_events ses) w)"
proof -
  obtain m es where ses: "ses = (m, es)" by (cases ses)
  let ?w1 = "step (MarkerMouseDown m) w"
  let ?w2 = "run (map DocMouseMove es) ?w1"
  have s1: "in_session m (st w) ?w1" and o1: "ordered ?w1"
    using assms mouse_down_opens [of w m] by (simp_all add: ordered_def)
  have s2: "in_session m (st w) ?w2" and o2: "ordered ?w2"
    and t2: "list_all ordered (trace (map DocMouseMove es) ?w1)"
    using moves_in_session [OF s1] o1 by simp_all
  have o3: "ordered (step DocMouseUp ?w2)"
    using mouse_up_closes(3) [OF s2] o2 by (simp add: ordered_def)
  show "list_all ordered (trace (session_events ses) w)"
    using o1 t2 o3 by (simp add: ses session_events_def trace_append)
  show "mousemove (run (session_events ses) w) = []"
    using mouse_up_closes(1) [OF s2] by (simp add: ses session_events_def run_append)
  show "mouseup (run (session_events ses) w) = []"
    using mouse_up_closes(2) [OF s2] by (simp add: ses session_events_def run_append)
  show "ordered (run (session_events ses) w)"
    using o3 by (simp add: ses session_events_def run_append)
qed

lemma sessions_keep_order:
  assumes "mousemove w = []" "mouseup w = []" "ordered w"
  shows "list_all ordered (trace (concat (map session_events ss)) w)"
  using assms
proof (induction ss arbitrary: w)
  case Nil
  then show ?case by simp
next
  case (Cons ses ss)
  have "list_all ordered (trace (concat (map session_events ss)) (run (session_events ses) w))"
    using Cons.IH session_keeps_order(2,3,4) [OF Cons.prems] by blast
  then show ?case
    using session_keeps_order(1) [OF Cons.prems] by (simp add: trace_append)
qed

lemma accept_rule_in_session:
  assumes "in_session m r w" "timelineRef w = Some timeline"
  shows "st (step (DocMouseMove e) w) =
     (let t = newTime timeline e (videoDuration (st w))
      in case m of
           Start \<Rightarrow> if num_lt t (cropEndTime (st w)) then (st w)\<lparr>cropStartTime := t\<rparr> else st w
         | End \<Rightarrow> if num_gt t (cropStartTime (st w)) then (st w)\<lparr>cropEndTime := t\<rparr> else st w)"
  using assms
  by (auto simp: in_session_def handleMarkerDrag_def Let_def split: marker.splits)

text \<open>
  What holds when sessions come one at a time, each closed by its mouse-up. Within a
  session on the start marker, a candidate time \<open>t\<close> becomes the new start exactly when
  \<open>t < end\<close>, and within a session on the end marker it becomes the new end exactly when
  \<open>t > start\<close>; otherwise the interval stays as it is. Hence, from a world with no
  session open and \<open>start < end\<close>, every world passed through by any sequence of such
  sessions has \<open>start < end\<close>.
\<close>

lemma session_accept_rule_and_order:
  assumes "mousemove w = []" and "mouseup w = []" and "timelineRef w = Some timeline"
    and "ordered w"
  shows "(let w1 = run (MarkerMouseDown Start # map DocMouseMove es) w;
              t = newTime timeline e (videoDuration (st w1))
          in st (step (DocMouseMove e) w1) =
               (if num_lt t (cropEndTime (st w1)) then (st w1)\<lparr>cropStartTime := t\<rparr>
                else st w1))
       \<and> (let w1 = run (MarkerMouseDown End # map DocMouseMove es) w;
              t = newTime timeline e (videoDuration (st w1))
          in st (step (DocMouseMove e) w1) =
               (if num_gt t (cropStartTime (st w1)) then (st w1)\<lparr>cropEndTime := t\<rparr>
                else st w1))
       \<and> list_all ordered (trace (concat (map session_events ss)) w)"
proof -
  have mid: "in_session m (st w) (run (MarkerMouseDown m # map DocMouseMove es) w)
      \<and> timelineRef (run (MarkerMouseDown m # map DocMouseMove es) w) = Some timeline" for m
  proof -
    have "in_session m (st w) (step (MarkerMouseDown m) w)"
      using assms(1,2) by (rule mouse_down_opens(1))
    then have "in_session m (st w) (run (map DocMouseMove es) (step (MarkerMouseDown m) w))"
      and "timelineRef (run (map DocMouseMove es) (step (MarkerMouseDown m) w))
           = timelineRef (step (MarkerMouseDown m) w)"
      by (rule moves_in_session(1), rule moves_in_session(2))
    then show ?thesis
      using mouse_down_opens(3) [OF assms(1,2)] assms(3) by simp
  qed
  have a: "st (step (DocMouseMove e) (run (MarkerMouseDown m # map DocMouseMove es) w)) =
     (let w1 = run (MarkerMouseDown m # map DocMouseMove es) w;
          t = newTime timeline e (videoDuration (st w1))
      in case m of
           Start \<Rightarrow> if num_lt t (cropEndTime (st w1)) then (st w1)\<lparr>cropStartTime := t\<rparr> else st w1
         | End \<Rightarrow> if num_gt t (cropStartTime (st w1)) then (st w1)\<lparr>cropEndTime := t\<rparr> else st w1)" for m
    using accept_rule_in_session [of m "st w" _ timeline e] mid [of m] by (simp add: Let_def)
  show ?thesis
    using a [of Start] a [of End] sessions_keep_order [OF assms(1,2,4), of ss]
    by (simp add: Let_def)
qed

text \<open>
  On the video of 120 seconds (start 1, end 119): dragging the start marker to the middle
  and then to a quarter of the timeline leaves start at 30; dragging the end marker to the
  middle and then to the left edge leaves end at 60, the candidate 0 being refused.
\<close>

lemma session_accept_rule_and_order_example:
  "mousemove (cropping (Fin 120)) = [] \<and> mouseup (cropping (Fin 120)) = []
   \<and> timelineRef (cropping (Fin 120)) = Some \<lparr>rect_left = 0, rect_width = 600\<rparr>
   \<and> ordered (cropping (Fin 120))
   \<and> cropStartTime (st (run [MarkerMouseDown Start, DocMouseMove \<lparr>clientX = 300\<rparr>,
        DocMouseMove \<lparr>clientX = 150\<rparr>] (cropping (Fin 120)))) = Fin 30
   \<and> cropEndTime (st (run [MarkerMouseDown End, DocMouseMove \<lparr>clientX = 300\<rparr>,
        DocMouseMove \<lparr>clientX = 0\<rparr>] (cropping (Fin 120)))) = Fin 60
   \<and> list_all ordered (trace (concat (map session_events
        [(Start, [\<lparr>clientX = 300\<rparr>, \<lparr>clientX = 599\<rparr>]), (End, [\<lparr>clientX = 100\<rparr>])]))
        (cropping (Fin 120)))"
  using session_accept_rule_and_order [where w = "cropping (Fin 120)"
      and timeline = "\<lparr>rect_left = 0, rect_width = 600\<rparr>"
      and es = "[\<lparr>clientX = 300\<rparr>]" and e = "\<lparr>clientX = 150\<rparr>"
      and ss = "[(Start, [\<lparr>clientX = 300\<rparr>, \<lparr>clientX = 599\<rparr>]), (End, [\<lparr>clientX = 100\<rparr>])]"]
  by (simp add: cropping_120 ordered_def handler_defs)

text \<open>
  Claim C1. The claim is that a candidate for the end marker is accepted exactly when it is
  above the start (and one for the start marker exactly when it is below the end), so that
  \<open>start < end\<close> is kept by every drag. The code breaks it. \<open>handleMarkerMouseDown\<close>
  registers its listener without looking at the dragging flag and without removing a
  listener that is still there, and a listener compares the candidate with the start and
  end of the render that made it. On the run below, every event of which can occur, the
  second mouse-down comes before any mouse-up (a second button is enough): the start is at
  60, the candidate 20 for the end marker is not above it, and the first listener still
  accepts it against the start 1 it closed over. The interval ends as start 60, end 20.
\<close>

theorem second_mouse_down_breaks_order:
  "feasible [VideoLoadedMetadata (Fin 120), Click ModoDeCorte, MarkerMouseDown Start,
             DocMouseMove \<lparr>clientX = 300\<rparr>, MarkerMouseDown End,
             DocMouseMove \<lparr>clientX = 100\<rparr>] (mount \<lparr>rect_left = 0, rect_width = 600\<rparr>)
   \<and> ordered (cropping (Fin 120))
   \<and> st (run [MarkerMouseDown Start, DocMouseMove \<lparr>clientX = 300\<rparr>, MarkerMouseDown End]
           (cropping (Fin 120)))
       = (st (cropping (Fin 120)))\<lparr>cropStartTime := Fin 60\<rparr>
   \<and> activeMarkerRef (run [MarkerMouseDown Start, DocMouseMove \<lparr>clientX = 300\<rparr>,
           MarkerMouseDown End] (cropping (Fin 120))) = Some End
   \<and> newTime \<lparr>rect_left = 0, rect_width = 600\<rparr> \<lparr>clientX = 100\<rparr> (Fin 120) = Fin 20
   \<and> \<not> num_gt (Fin 20) (Fin 60)
   \<and> st (run [MarkerMouseDown Start, DocMouseMove \<lparr>clientX = 300\<rparr>, MarkerMouseDown End,
             DocMouseMove \<lparr>clientX = 100\<rparr>] (cropping (Fin 120)))
       = (st (cropping (Fin 120)))\<lparr>cropStartTime := Fin 60, cropEndTime := Fin 20\<rparr>
   \<and> \<not> ordered (run [MarkerMouseDown Start, DocMouseMove \<lparr>clientX = 300\<rparr>,
             MarkerMouseDown End, DocMouseMove \<lparr>clientX = 100\<rparr>] (cropping (Fin 120)))"
  by (simp add: cropping_120 ordered_def handler_defs mount_def initial_state_def
      loadedmetadata_def buttons_def crop_markers_def)

section \<open>Rejected candidates\<close>

text \<open>
  What holds of the refusing branch. A listener whose comparison refuses the candidate (for
  the start marker a candidate not below the end its render closed over, for the end marker
  one not above the start it closed over) returns the world it was given: start, end, the
  playback position, the values sent to the host and the uncaught exceptions are unchanged.
  A pointer move that every registered listener refuses therefore changes nothing.
\<close>

lemma refusing_listener_changes_nothing:
  assumes "timelineRef w = Some timeline"
    and "t = newTime timeline e (videoDuration r)"
    and "activeMarkerRef w = Some Start \<and> \<not> num_lt t (cropEndTime r)
       \<or> activeMarkerRef w = Some End \<and> \<not> num_gt t (cropStartTime r)"
  shows "handleMarkerDrag r e w = w"
  using assms by (auto simp: handleMarkerDrag_def Let_def)

lemma refusing_listeners_change_nothing:
  assumes "timelineRef w = Some timeline"
    and "activeMarkerRef w = Some Start
           \<and> list_all (\<lambda>r. \<not> num_lt (newTime timeline e (videoDuration r)) (cropEndTime r)) ls
       \<or> activeMarkerRef w = Some End
           \<and> list_all (\<lambda>r. \<not> num_gt (newTime timeline e (videoDuration r)) (cropStartTime r)) ls"
  shows "foldl (\<lambda>w' r. handleMarkerDrag r e w') w ls = w"
  using assms
proof (induction ls)
  case Nil
  then show ?case by simp
next
  case (Cons r ls)
  have "handleMarkerDrag r e w = w"
    using Cons.prems refusing_listener_changes_nothing [of w timeline _ e r] by auto
  then show ?case
    using Cons by auto
qed

text \<open>
  Within a session the one listener closed over the current bound, so a candidate that the
  accept rule rejects on the current interval changes nothing.
\<close>

lemma rejected_in_session_changes_nothing:
  assumes "in_session m r w" and "timelineRef w = Some timeline"
    and "t = newTime timeline e (videoDuration (st w))"
    and "m = Start \<and> \<not> num_lt t (cropEndTime (st w))
       \<or> m = End \<and> \<not> num_gt t (cropStartTime (st w))"
  shows "handleMarkerDrag r e w = w \<and> step (DocMouseMove e) w = w"
proof -
  have "handleMarkerDrag r e w = w"
    using assms by (auto simp: in_session_def handleMarkerDrag_def Let_def)
  then show ?thesis
    using mouse_move_in_session(1) [OF assms(1)] by simp
qed

text \<open>
  With the end at 119, the start marker pulled to the right edge of the timeline gives the
  candidate 120, which is refused.
\<close>

lemma rejected_in_session_changes_nothing_example:
  "in_session Start (st (cropping (Fin 120))) (step (MarkerMouseDown Start) (cropping (Fin 120)))
   \<and> timelineRef (step (MarkerMouseDown Start) (cropping (Fin 120)))
       = Some \<lparr>rect_left = 0, rect_width = 600\<rparr>
   \<and> newTime \<lparr>rect_left = 0, rect_width = 600\<rparr> \<lparr>clientX = 600\<rparr> (Fin 120) = Fin 120
   \<and> \<not> num_lt (Fin 120) (cropEndTime (st (step (MarkerMouseDown Start) (cropping (Fin 120)))))
   \<and> step (DocMouseMove \<lparr>clientX = 600\<rparr>) (step (MarkerMouseDown Start) (cropping (Fin 120)))
       = step (MarkerMouseDown Start) (cropping (Fin 120))"
  using rejected_in_session_changes_nothing
    [where w = "step (MarkerMouseDown Start) (cropping (Fin 120))" and m = Start
       and timeline = "\<lparr>rect_left = 0, rect_width = 600\<rparr>" and e = "\<lparr>clientX = 600\<rparr>"
       and r = "st (cropping (Fin 120))" and t = "Fin 120"]
  by (simp add: cropping_120 in_session_def handleMarkerMouseDown_def addEventListener_def
      newTime_def Math_min_def Math_max_def)

text \<open>
  Claim C4. The claim is that in every state reached in crop mode a candidate which the
  accept rule rejects leaves start and end as they are. The code breaks it in a state that
  a second mouse-down without a mouse-up in between reaches. In the run below, every event
  of which can occur, the end has been dragged to 60 and the start marker is then pressed:
  the candidate 108 for the start marker is not below the end, so the rule rejects it, yet
  the listener left by the first mouse-down accepts it against the end 119 it closed over.
  The start moves from 1 to 108 and the playback position from 60 to 108.
\<close>

theorem stale_listener_moves_rejected_candidate:
  "feasible [VideoLoadedMetadata (Fin 120), Click ModoDeCorte, MarkerMouseDown End,
             DocMouseMove \<lparr>clientX = 300\<rparr>, MarkerMouseDown Start,
             DocMouseMove \<lparr>clientX = 540\<rparr>] (mount \<lparr>rect_left = 0, rect_width = 600\<rparr>)
   \<and> cropMode (st (run [MarkerMouseDown End, DocMouseMove \<lparr>clientX = 300\<rparr>,
        MarkerMouseDown Start] (cropping (Fin 120))))
   \<and> activeMarkerRef (run [MarkerMouseDown End, DocMouseMove \<lparr>clientX = 300\<rparr>,
        MarkerMouseDown Start] (cropping (Fin 120))) = Some Start
   \<and> cropStartTime (st (run [MarkerMouseDown End, DocMouseMove \<lparr>clientX = 300\<rparr>,
        MarkerMouseDown Start] (cropping (Fin 120)))) = Fin 1
   \<and> cropEndTime (st (run [MarkerMouseDown End, DocMouseMove \<lparr>clientX = 300\<rparr>,
        MarkerMouseDown Start] (cropping (Fin 120)))) = Fin 60
   \<and> map_option currentTime (videoRef (run [MarkerMouseDown End, DocMouseMove \<lparr>clientX = 300\<rparr>,
        MarkerMouseDown Start] (cropping (Fin 120)))) = Some (Fin 60)
   \<and> newTime \<lparr>rect_left = 0, rect_width = 600\<rparr> \<lparr>clientX = 540\<rparr> (Fin 120) = Fin 108
   \<and> \<not> num_lt (Fin 108) (Fin 60)
   \<and> cropStartTime (st (step (DocMouseMove \<lparr>clientX = 540\<rparr>)
        (run [MarkerMouseDown End, DocMouseMove \<lparr>clientX = 300\<rparr>, MarkerMouseDown Start]
          (cropping (Fin 120))))) = Fin 108
   \<and> map_option currentTime (videoRef (step (DocMouseMove \<lparr>clientX = 540\<rparr>)
        (run [MarkerMouseDown End, DocMouseMove \<lparr>clientX = 300\<rparr>, MarkerMouseDown Start]
          (cropping (Fin 120))))) = Some (Fin 108)"
  by (simp add: cropping_120 handler_defs mount_def initial_state_def loadedmetadata_def
      buttons_def crop_markers_def)

text \<open>
  Claim C10. A pointer move that arrives while the dragging flag is off, or while no
  active marker is recorded, or while the timeline element is not mounted, changes nothing:
  the handler returns the world it was given, whatever render it belongs to, and so does
  the dispatch to all registered listeners.
\<close>

theorem drag_without_session_changes_nothing:
  assumes "\<not> isDraggingRef w \<or> activeMarkerRef w = None \<or> timelineRef w = None"
  shows "handleMarkerDrag r e w = w \<and> step (DocMouseMove e) w = w"
proof -
  have one: "handleMarkerDrag r' e w = w" for r'
    using assms by (auto simp: handleMarkerDrag_def split: option.splits)
  have "foldl (\<lambda>w' r. handleMarkerDrag r e w') w ls = w" for ls
    by (induction ls) (simp_all add: one)
  then show ?thesis using one by simp
qed

theorem drag_without_session_changes_nothing_witness:
  "\<not> isDraggingRef (cropping (Fin 120))
   \<and> handleMarkerDrag (st (cropping (Fin 120))) \<lparr>clientX = 300\<rparr> (cropping (Fin 120))
       = cropping (Fin 120)
   \<and> step (DocMouseMove \<lparr>clientX = 300\<rparr>) (cropping (Fin 120)) = cropping (Fin 120)"
  using drag_without_session_changes_nothing [of "cropping (Fin 120)" "st (cropping (Fin 120))"
      "\<lparr>clientX = 300\<rparr>"]
  by (simp add: cropping_120)

section \<open>From the pointer to a time\<close>

lemma clamp_position:
  "Math_max (Fin 0) (Math_min (Fin 1) (Fin p)) = Fin (spec_clamp p 0 1)"
  by (simp add: Math_min_def Math_max_def spec_clamp_def)

lemma newTime_spec_time:
  assumes "wd \<noteq> 0"
  shows "newTime \<lparr>rect_left = l, rect_width = wd\<rparr> \<lparr>clientX = x\<rparr> (Fin d)
       = Fin (spec_time x l wd d)"
proof -
  from assms have "num_div (num_sub (Fin x) (Fin l)) (Fin wd) = Fin ((x - l) / wd)"
    by simp
  then show ?thesis
    by (simp add: newTime_def spec_time_def Let_def clamp_position)
qed

lemma newTime_zero_width:
  assumes "rect_width timeline = 0"
  shows "newTime timeline e D =
     (if clientX e = rect_left timeline then NaN
      else if rect_left timeline < clientX e then num_mul (Fin 1) D
      else num_mul (Fin 0) D)"
  using assms by (simp add: newTime_def Math_min_def Math_max_def Let_def)

text \<open>
  Claim C3. For a pointer position, a left edge, a width above 0 and a finite duration,
  the candidate time the drag handler computes is the specification's
  \<open>clamp((pointerX - leftEdge) / width, 0, 1) * duration\<close>, a function of these four values
  and of nothing else; it is the time the handler compares with the other marker and
  stores. (The duration need not even be non-negative.)
\<close>

theorem drag_candidate_is_spec_time:
  assumes "0 < width'"
  shows "newTime \<lparr>rect_left = leftEdge, rect_width = width'\<rparr> \<lparr>clientX = pointerX\<rparr> (Fin d)
           = Fin (spec_time pointerX leftEdge width' d)
     \<and> (isDraggingRef w \<and> timelineRef w = Some \<lparr>rect_left = leftEdge, rect_width = width'\<rparr>
          \<and> videoDuration r = Fin d \<longrightarrow>
          handleMarkerDrag r \<lparr>clientX = pointerX\<rparr> w =
            (let t = Fin (spec_time pointerX leftEdge width' d)
             in case activeMarkerRef w of
                  None \<Rightarrow> w
                | Some Start \<Rightarrow>
                    if num_lt t (cropEndTime r)
                    then seek t (w\<lparr>st := (st w)\<lparr>cropStartTime := t\<rparr>\<rparr>) else w
                | Some End \<Rightarrow>
                    if num_gt t (cropStartTime r)
                    then seek t (w\<lparr>st := (st w)\<lparr>cropEndTime := t\<rparr>\<rparr>) else w))"
proof -
  have "newTime \<lparr>rect_left = leftEdge, rect_width = width'\<rparr> \<lparr>clientX = pointerX\<rparr> (Fin d)
      = Fin (spec_time pointerX leftEdge width' d)"
    using assms newTime_spec_time [of width' leftEdge pointerX d] by simp
  then show ?thesis
    by (auto simp: handleMarkerDrag_def Let_def split: option.splits marker.splits)
qed

theorem drag_candidate_is_spec_time_witness:
  "(0::real) < 600
   \<and> newTime \<lparr>rect_left = 0, rect_width = 600\<rparr> \<lparr>clientX = 150\<rparr> (Fin 120) = Fin 30
   \<and> spec_time 150 0 600 120 = 30
   \<and> cropStartTime (st (handleMarkerDrag (st (cropping (Fin 120))) \<lparr>clientX = 150\<rparr>
        (step (MarkerMouseDown Start) (cropping (Fin 120))))) = Fin 30"
  using drag_candidate_is_spec_time [where width' = 600 and leftEdge = 0 and pointerX = 150
      and d = 120 and w = "step (MarkerMouseDown Start) (cropping (Fin 120))"
      and r = "st (cropping (Fin 120))"]
  by (simp add: cropping_120 spec_time_def spec_clamp_def handler_defs)

section \<open>Entering crop mode\<close>

text \<open>
  Claim C2, as the code has it. For every duration \<open>D > 0\<close>, finite or infinite, entering
  crop mode sets start to 1 and end to \<open>max(D - 1, D * 0.75)\<close>, with \<open>0 \<le> start\<close> and
  \<open>end \<le> D\<close>; and \<open>start < end\<close> holds exactly when \<open>D > 4/3\<close>. The start is the constant
  1 whatever the duration, so for a shorter video the interval is empty or inverted.
\<close>

theorem enter_crop_interval:
  assumes "\<not> cropMode (st w)" and "videoDuration (st w) = D" and "num_lt (Fin 0) D"
  shows "cropMode (st (step (Click ModoDeCorte) w))
       \<and> cropStartTime (st (step (Click ModoDeCorte) w)) = Fin 1
       \<and> cropEndTime (st (step (Click ModoDeCorte) w)) =
           Math_max (num_sub D (Fin 1)) (num_mul D (Fin 0.75))
       \<and> num_le (Fin 0) (cropStartTime (st (step (Click ModoDeCorte) w)))
       \<and> num_le (cropEndTime (st (step (Click ModoDeCorte) w))) D
       \<and> (num_lt (cropStartTime (st (step (Click ModoDeCorte) w)))
                 (cropEndTime (st (step (Click ModoDeCorte) w))) \<longleftrightarrow> num_lt (Fin (4 / 3)) D)"
  using assms
  by (cases D) (auto simp: handleToggleCrop_def Let_def Math_max_def num_le_def)

text \<open>The scenario of 120 seconds: start 1, end \<open>max(119, 90) = 119\<close>.\<close>

theorem enter_crop_interval_witness:
  "\<not> cropMode (st (loaded (Fin 120))) \<and> videoDuration (st (loaded (Fin 120))) = Fin 120
   \<and> num_lt (Fin 0) (Fin 120)
   \<and> cropStartTime (st (step (Click ModoDeCorte) (loaded (Fin 120)))) = Fin 1
   \<and> cropEndTime (st (step (Click ModoDeCorte) (loaded (Fin 120)))) = Fin 119
   \<and> num_lt (cropStartTime (st (step (Click ModoDeCorte) (loaded (Fin 120)))))
            (cropEndTime (st (step (Click ModoDeCorte) (loaded (Fin 120)))))"
  using enter_crop_interval [of "loaded (Fin 120)" "Fin 120"]
  by (simp add: loaded_120 Math_max_def)

text \<open>
  With a video of one second the claim's \<open>start < end\<close> fails: start is 1 and end is
  \<open>max(0, 0.75) = 0.75\<close>.
\<close>

theorem enter_crop_interval_counterexample:
  "num_lt (Fin 0) (videoDuration (st (loaded (Fin 1))))
   \<and> \<not> cropMode (st (loaded (Fin 1)))
   \<and> cropStartTime (st (step (Click ModoDeCorte) (loaded (Fin 1)))) = Fin 1
   \<and> cropEndTime (st (step (Click ModoDeCorte) (loaded (Fin 1)))) = Fin 0.75
   \<and> \<not> num_lt (cropStartTime (st (step (Click ModoDeCorte) (loaded (Fin 1)))))
             (cropEndTime (st (step (Click ModoDeCorte) (loaded (Fin 1)))))"
  by (simp add: loaded_def mount_def initial_state_def loadedmetadata_def handler_defs)

text \<open>
  Claim C7, as the code has it. When the duration is 0 (as it is until the metadata has
  loaded), entering crop mode sets start to 1 and end to \<open>max(-1, 0) = 0\<close>: the two do not
  collapse to 0, the interval is inverted. Every pointer position then maps to the time 0,
  except on a timeline of width 0 with the pointer exactly on its left edge (where the
  fraction is \<open>0 / 0\<close>).
\<close>

theorem zero_duration_crop:
  assumes "\<not> cropMode (st w)" and "videoDuration (st w) = Fin 0"
    and "rect_width timeline \<noteq> 0 \<or> clientX e \<noteq> rect_left timeline"
  shows "cropMode (st (step (Click ModoDeCorte) w))
       \<and> cropStartTime (st (step (Click ModoDeCorte) w)) = Fin 1
       \<and> cropEndTime (st (step (Click ModoDeCorte) w)) = Fin 0
       \<and> videoDuration (st (step (Click ModoDeCorte) w)) = Fin 0
       \<and> newTime timeline e (Fin 0) = Fin 0"
proof -
  have "newTime timeline e (Fin 0) = Fin 0"
    using assms(3) by (auto simp: newTime_def Math_min_def Math_max_def Let_def)
  then show ?thesis
    using assms(1,2) by (simp add: handleToggleCrop_def Math_max_def Let_def)
qed

theorem zero_duration_crop_witness:
  "\<not> cropMode (st (mount \<lparr>rect_left = 0, rect_width = 600\<rparr>))
   \<and> videoDuration (st (mount \<lparr>rect_left = 0, rect_width = 600\<rparr>)) = Fin 0
   \<and> rect_width \<lparr>rect_left = 0, rect_width = 600\<rparr> \<noteq> 0
   \<and> cropStartTime (st (step (Click ModoDeCorte) (mount \<lparr>rect_left = 0, rect_width = 600\<rparr>)))
       = Fin 1
   \<and> cropEndTime (st (step (Click ModoDeCorte) (mount \<lparr>rect_left = 0, rect_width = 600\<rparr>)))
       = Fin 0
   \<and> newTime \<lparr>rect_left = 0, rect_width = 600\<rparr> \<lparr>clientX = 300\<rparr> (Fin 0) = Fin 0"
  using zero_duration_crop [of "mount \<lparr>rect_left = 0, rect_width = 600\<rparr>"
      "\<lparr>rect_left = 0, rect_width = 600\<rparr>" "\<lparr>clientX = 300\<rparr>"]
  by (simp add: mount_def initial_state_def)

text \<open>
  Entering crop mode right after mounting, with the duration still 0: the start is not 0
  and differs from the end.
\<close>

theorem zero_duration_crop_counterexample:
  "videoDuration (st (mount \<lparr>rect_left = 0, rect_width = 600\<rparr>)) = Fin 0
   \<and> \<not> cropMode (st (mount \<lparr>rect_left = 0, rect_width = 600\<rparr>))
   \<and> cropStartTime (st (step (Click ModoDeCorte) (mount \<lparr>rect_left = 0, rect_width = 600\<rparr>)))
       \<noteq> Fin 0
   \<and> cropStartTime (st (step (Click ModoDeCorte) (mount \<lparr>rect_left = 0, rect_width = 600\<rparr>)))
       \<noteq> cropEndTime (st (step (Click ModoDeCorte) (mount \<lparr>rect_left = 0, rect_width = 600\<rparr>)))"
  by (simp add: mount_def initial_state_def handler_defs)

section \<open>A timeline of width 0\<close>

text \<open>
  Claim C6, as the code has it. The drag handler does not look at the width. On a timeline
  of width 0 the fraction is \<open>NaN\<close> when the pointer is exactly on the left edge, and only
  then is the move without effect; right of the left edge the fraction is \<open>+Infinity\<close> and
  is clamped to 1, left of it \<open>-Infinity\<close> clamped to 0, and the candidate \<open>1 * duration\<close>
  or \<open>0 * duration\<close> goes through the ordinary accept rule, so a marker can move.
\<close>

theorem zero_width_drag:
  assumes "rect_width timeline = 0" and "timelineRef w = Some timeline"
  shows "newTime timeline e D =
           (if clientX e = rect_left timeline then NaN
            else if rect_left timeline < clientX e then num_mul (Fin 1) D
            else num_mul (Fin 0) D)
       \<and> (clientX e = rect_left timeline \<longrightarrow>
            handleMarkerDrag r e w = w \<and> step (DocMouseMove e) w = w)
       \<and> (in_session m r w \<longrightarrow>
            st (step (DocMouseMove e) w) =
              (let t = newTime timeline e (videoDuration (st w))
               in case m of
                    Start \<Rightarrow> if num_lt t (cropEndTime (st w))
                             then (st w)\<lparr>cropStartTime := t\<rparr> else st w
                  | End \<Rightarrow> if num_gt t (cropStartTime (st w))
                           then (st w)\<lparr>cropEndTime := t\<rparr> else st w))"
proof -
  have nan: "newTime timeline e D' = NaN" if "clientX e = rect_left timeline" for D'
    using that newTime_zero_width [OF assms(1)] by simp
  have one: "handleMarkerDrag r' e w = w" if "clientX e = rect_left timeline" for r'
    using nan [OF that] assms(2)
    by (auto simp: handleMarkerDrag_def Let_def num_gt_def split: option.splits marker.splits)
  have all: "foldl (\<lambda>w' r. handleMarkerDrag r e w') w ls = w"
    if "clientX e = rect_left timeline" for ls
    by (induction ls) (simp_all add: one [OF that])
  show ?thesis
    using newTime_zero_width [OF assms(1)] one all accept_rule_in_session [OF _ assms(2)]
    by simp
qed

theorem zero_width_drag_witness:
  "rect_width \<lparr>rect_left = 0, rect_width = 0\<rparr> = 0
   \<and> timelineRef (run [Layout (Some \<lparr>rect_left = 0, rect_width = 0\<rparr>), MarkerMouseDown End]
        (cropping (Fin 120))) = Some \<lparr>rect_left = 0, rect_width = 0\<rparr>
   \<and> newTime \<lparr>rect_left = 0, rect_width = 0\<rparr> \<lparr>clientX = 0\<rparr> (Fin 120) = NaN
   \<and> step (DocMouseMove \<lparr>clientX = 0\<rparr>)
        (run [Layout (Some \<lparr>rect_left = 0, rect_width = 0\<rparr>), MarkerMouseDown End]
          (cropping (Fin 120)))
       = run [Layout (Some \<lparr>rect_left = 0, rect_width = 0\<rparr>), MarkerMouseDown End]
          (cropping (Fin 120))
   \<and> in_session End (st (cropping (Fin 120)))
        (run [Layout (Some \<lparr>rect_left = 0, rect_width = 0\<rparr>), MarkerMouseDown End]
          (cropping (Fin 120)))"
  using zero_width_drag [where timeline = "\<lparr>rect_left = 0, rect_width = 0\<rparr>"
      and w = "run [Layout (Some \<lparr>rect_left = 0, rect_width = 0\<rparr>), MarkerMouseDown End]
          (cropping (Fin 120))" and e = "\<lparr>clientX = 0\<rparr>" and D = "Fin 120"
      and r = "st (cropping (Fin 120))" and m = End]
  by (simp add: cropping_120 in_session_def handler_defs)

text \<open>
  The timeline has width 0, the end marker (at 119) is being dragged, and the pointer is
  10 right of the left edge: the end moves to 120.
\<close>

theorem zero_width_drag_counterexample:
  "timelineRef (run [Layout (Some \<lparr>rect_left = 0, rect_width = 0\<rparr>), MarkerMouseDown End]
      (cropping (Fin 120))) = Some \<lparr>rect_left = 0, rect_width = 0\<rparr>
   \<and> cropEndTime (st (run [Layout (Some \<lparr>rect_left = 0, rect_width = 0\<rparr>), MarkerMouseDown End]
        (cropping (Fin 120)))) = Fin 119
   \<and> cropEndTime (st (step (DocMouseMove \<lparr>clientX = 10\<rparr>)
        (run [Layout (Some \<lparr>rect_left = 0, rect_width = 0\<rparr>), MarkerMouseDown End]
          (cropping (Fin 120))))) = Fin 120"
  by (simp add: cropping_120 handler_defs)

section \<open>Apply and cancel\<close>

text \<open>
  Claim C5. Whatever the interval is, the apply button hands the host exactly one more
  value, made of the current start and end unchanged and of \<open>shouldRefreshTaskList\<close> set,
  and leaves crop mode off.
\<close>

theorem apply_emits_interval:
  "componentValues (step (Click AplicarCorte) w) =
     componentValues w @
       [\<lparr>cv_start = cropStartTime (st w), cv_end = cropEndTime (st w),
         shouldRefreshTaskList = True\<rparr>]
   \<and> \<not> cropMode (st (step (Click AplicarCorte) w))"
  by (simp add: handleCropApply_def)

text \<open>The scenario with the interval from 1 to 119.\<close>

theorem apply_emits_interval_witness:
  "componentValues (step (Click AplicarCorte) (cropping (Fin 120))) =
     [\<lparr>cv_start = Fin 1, cv_end = Fin 119, shouldRefreshTaskList = True\<rparr>]
   \<and> \<not> cropMode (st (step (Click AplicarCorte) (cropping (Fin 120))))"
  using apply_emits_interval [of "cropping (Fin 120)"]
  by (simp add: cropping_120)

lemma drag_emits_nothing: "componentValues (handleMarkerDrag r e w) = componentValues w"
  by (simp add: handleMarkerDrag_def Let_def split: option.splits marker.splits)

lemma drags_emit_nothing:
  "componentValues (foldl (\<lambda>w' r. handleMarkerDrag r e w') w ls) = componentValues w"
  by (induction ls arbitrary: w) (simp_all add: drag_emits_nothing)

lemma mouse_ups_emit_nothing:
  "componentValues (foldl (\<lambda>w' r. handleMarkerMouseUp r w') w ls) = componentValues w"
  by (induction ls arbitrary: w) (simp_all add: handleMarkerMouseUp_def)

lemma idle_emits_nothing:
  assumes "\<not> cropMode (st w)" "enabled ev w"
  shows "componentValues (step ev w) = componentValues w"
proof (cases ev)
  case (Click b)
  then show ?thesis
    using assms by (cases b) (simp_all add: buttons_def handleToggleCrop_def Let_def)
next
  case (MarkerMouseDown m)
  then show ?thesis by (simp add: handleMarkerMouseDown_def)
next
  case (MarkerDoubleClick m)
  then show ?thesis by (simp add: handleMarkerDoubleClick_def)
next
  case (DocMouseMove e)
  then show ?thesis by (simp add: drags_emit_nothing)
next
  case DocMouseUp
  then show ?thesis by (simp add: mouse_ups_emit_nothing)
next
  case (VideoLoadedMetadata d)
  then show ?thesis by (simp add: loadedmetadata_def Let_def split: option.splits)
next
  case (Layout rect)
  then show ?thesis by simp
qed

text \<open>
  Claim C8. The cancel button turns crop mode off and sends nothing to the host. The
  interval is discarded: no marker is shown any more, the only button left is the one that
  enters crop mode, and entering it again gives the same world whatever the interval was
  when cancel was pressed. And while crop mode is off, no event that can occur sends a
  value to the host.
\<close>

theorem cancel_discards_interval:
  "\<not> cropMode (st (step (Click Cancelar) w))
   \<and> componentValues (step (Click Cancelar) w) = componentValues w
   \<and> crop_markers (st (step (Click Cancelar) w)) = []
   \<and> buttons (st (step (Click Cancelar) w)) = [ModoDeCorte]
   \<and> step (Click ModoDeCorte)
        (step (Click Cancelar) (w\<lparr>st := (st w)\<lparr>cropStartTime := a, cropEndTime := b\<rparr>\<rparr>))
       = step (Click ModoDeCorte) (step (Click Cancelar) w)
   \<and> (\<not> cropMode (st w) \<and> enabled ev w \<longrightarrow> componentValues (step ev w) = componentValues w)"
  using idle_emits_nothing [of w ev]
  by (simp add: handleCancel_def crop_markers_def buttons_def handleToggleCrop_def Let_def)

theorem cancel_discards_interval_witness:
  "\<not> cropMode (st (loaded (Fin 120))) \<and> enabled (Click ModoDeCorte) (loaded (Fin 120))
   \<and> componentValues (step (Click ModoDeCorte) (loaded (Fin 120))) = []
   \<and> cropMode (st (cropping (Fin 120)))
   \<and> componentValues (step (Click Cancelar) (cropping (Fin 120))) = []
   \<and> \<not> cropMode (st (step (Click Cancelar) (cropping (Fin 120))))"
  using cancel_discards_interval [of "loaded (Fin 120)" _ _ "Click ModoDeCorte"]
    cancel_discards_interval [of "cropping (Fin 120)" _ _ "Click Cancelar"]
  by (simp add: loaded_120 cropping_120 buttons_def)

section \<open>The placeholder lanes\<close>

lemma toLength_clamped:
  assumes "0 \<le> lo" "lo \<le> hi" "hi \<le> 1000"
  shows "toLength (Math_min (Fin (of_int hi)) (Math_max (Fin (of_int lo)) (Math_ceil (Fin x))))
       = nat (spec_clamp_int \<lceil>x\<rceil> lo hi)"
  using assms by (auto simp: Math_min_def Math_max_def spec_clamp_int_def)

lemma placeholder_counts:
  assumes "videoRef w = Some v"
  shows "toLength (dynamicWaveformCount (st (step (VideoLoadedMetadata (Fin d)) w)))
           = spec_waveform_length d"
    and "toLength (dynamicThumbnailCount (st (step (VideoLoadedMetadata (Fin d)) w)))
           = spec_thumbnail_length d"
  using assms toLength_clamped [of 100 1000 "d * 2"] toLength_clamped [of 50 300 "d / 3"]
  by (simp_all add: loadedmetadata_def Let_def spec_waveform_length_def
      spec_thumbnail_length_def)

lemma lanes_before_metadata:
  "length (default_bars initial_state) = 100
   \<and> toLength (dynamicThumbnailCount initial_state) = 100"
  by (simp add: default_bars_def initial_state_def)

text \<open>
  Claim C9. Once the metadata of a video of duration \<open>d\<close> has loaded, a render without
  waveform data (absent or empty) shows \<open>clamp(ceil(d * 2), 100, 1000)\<close> placeholder bars,
  and a render without frame data shows \<open>clamp(ceil(d / 3), 50, 300)\<close> placeholder
  thumbnails; for 50 seconds that is 100 bars. (Until the metadata has loaded, both lanes
  have the initial 100 elements.)
\<close>

theorem placeholder_lengths:
  assumes "videoRef w = Some v"
    and "waveform_data a = None \<or> waveform_data a = Some []"
    and "frame_data a = None \<or> frame_data a = Some []"
  shows "length (audio_waveform a (st (step (VideoLoadedMetadata (Fin d)) w)))
           = spec_waveform_length d
       \<and> length (frame_thumbnails a (st (step (VideoLoadedMetadata (Fin d)) w)))
           = spec_thumbnail_length d
       \<and> length (audio_waveform a (st (step (VideoLoadedMetadata (Fin 50)) w))) = 100"
proof -
  have w: "length (audio_waveform a (st (step (VideoLoadedMetadata (Fin d')) w)))
      = spec_waveform_length d'" for d'
    using assms(2) placeholder_counts(1) [OF assms(1), of d']
    by (auto simp: audio_waveform_def default_bars_def)
  have t: "length (frame_thumbnails a (st (step (VideoLoadedMetadata (Fin d)) w)))
      = spec_thumbnail_length d"
    using assms(3) placeholder_counts(2) [OF assms(1), of d]
    by (auto simp: frame_thumbnails_def)
  have "spec_waveform_length 50 = 100"
    by (simp add: spec_waveform_length_def spec_clamp_int_def)
  then show ?thesis
    using w [of d] w [of 50] t by simp
qed

theorem placeholder_lengths_witness:
  "videoRef (mount \<lparr>rect_left = 0, rect_width = 600\<rparr>)
     = Some \<lparr>currentTime = Fin 0, duration = NaN\<rparr>
   \<and> length (audio_waveform
        \<lparr>video_url = ''v.mp4'', height = Fin 400, waveform_data = Some [], frame_data = None\<rparr>
        (st (loaded (Fin 50)))) = 100
   \<and> length (frame_thumbnails
        \<lparr>video_url = ''v.mp4'', height = Fin 400, waveform_data = Some [], frame_data = None\<rparr>
        (st (loaded (Fin 50)))) = 50"
  using placeholder_lengths [where w = "mount \<lparr>rect_left = 0, rect_width = 600\<rparr>"
      and v = "\<lparr>currentTime = Fin 0, duration = NaN\<rparr>" and d = 50
      and a = "\<lparr>video_url = ''v.mp4'', height = Fin 400, waveform_data = Some [],
                frame_data = None\<rparr>"]
  by (simp add: loaded_def mount_def spec_waveform_length_def spec_thumbnail_length_def
      spec_clamp_int_def)

end
